theory Spec2Isabelle
  imports Main
begin

section \<open>Values\<close>

text \<open>
  Tool arguments, tool results and input schemas are JSON values. An object keeps its
  members in order, as a list of key/value pairs.
\<close>

datatype json =
    JNull
  | JBool bool
  | JNum int
  | JStr string
  | JArr "json list"
  | JObj "(string \<times> json) list"

type_synonym jobject = "(string \<times> json) list"

text \<open>
  An Error object made by \<open>new Error(m)\<close>, or thrown by a collaborator of startup: its
  \<open>message\<close> (which may be absent), its \<open>code\<close>, and every other own property in
  \<open>other\<close>. A fresh \<open>new Error(m)\<close> has the message and nothing else (the stack trace
  is left out of the model).
\<close>

record js_error =
  message :: "string option"
  code :: "json option"
  other :: jobject

definition new_Error :: "string \<Rightarrow> js_error" where
  "new_Error m = \<lparr>message = Some m, code = None, other = []\<rparr>"

text \<open>
  What a tool handler throws can be any value: \<open>null\<close> or \<open>undefined\<close>, a primitive,
  or an object, whose \<open>message\<close> and \<open>code\<close> properties, when present, hold any JSON
  value.
\<close>

datatype primitive = PString string | PNumber int | PBoolean bool

record js_object =
  message_value :: "json option"
  code_value :: "json option"
  properties :: jobject

datatype thrown = Nullish | Primitive primitive | ThrownObject js_object

definition error_object :: "js_error \<Rightarrow> thrown" where
  "error_object e =
     ThrownObject \<lparr>message_value = map_option JStr (message e), code_value = code e,
                   properties = other e\<rparr>"

datatype type_error = TypeError

text \<open>
  \<open>MCP_ERROR_CODES\<close> is imported from \<open>./error-handler.js\<close> and taken as a parameter:
  the three entries that \<open>server-stdio.js\<close> reads, and the entry for the class the
  specification calls INTERNAL, which \<open>server-stdio.js\<close> never reads.
\<close>

record mcp_error_codes =
  METHOD_NOT_FOUND :: int
  CALDAV_ERROR :: int
  AUTH_ERROR :: int
  INTERNAL_ERROR :: int

section \<open>Error translation (the catch block of the tools/call handler)\<close>

text \<open>
  \<open>error.message\<close>: reading a property of \<open>null\<close> or \<open>undefined\<close> is a TypeError; a
  primitive has no such property.
\<close>

fun message_of :: "thrown \<Rightarrow> type_error + json option" where
  "message_of Nullish = Inl TypeError"
| "message_of (Primitive p) = Inr None"
| "message_of (ThrownObject ob) = Inr (message_value ob)"

fun code_of :: "thrown \<Rightarrow> json option" where
  "code_of Nullish = None"
| "code_of (Primitive p) = None"
| "code_of (ThrownObject ob) = code_value ob"

text \<open>
  \<open>String.prototype.includes\<close>: the needle occurs at some index of the string.
\<close>

fun str_includes :: "string \<Rightarrow> string \<Rightarrow> bool" where
  "str_includes [] needle = (needle = [])"
| "str_includes (c # cs) needle =
     (take (length needle) (c # cs) = needle \<or> str_includes cs needle)"

text \<open>
  \<open>m?.includes(s)\<close> for a message \<open>m\<close>: \<open>undefined\<close> (here \<open>None\<close>) when the message
  is absent or \<open>null\<close>; the substring test on a string; membership of the string in an
  array; and a TypeError for every other value, which has no \<open>includes\<close> to call.
\<close>

fun opt_includes :: "json option \<Rightarrow> string \<Rightarrow> type_error + bool option" where
  "opt_includes None needle = Inr None"
| "opt_includes (Some JNull) needle = Inr None"
| "opt_includes (Some (JStr s)) needle = Inr (Some (str_includes s needle))"
| "opt_includes (Some (JArr xs)) needle = Inr (Some (JStr needle \<in> set xs))"
| "opt_includes (Some v) needle = Inl TypeError"

text \<open>
  The condition \<open>m?.includes(a) || m?.includes(b)\<close>: the right operand is evaluated
  only when the left one is not truthy.
\<close>

definition includes_either :: "json option \<Rightarrow> string \<Rightarrow> string \<Rightarrow> type_error + bool" where
  "includes_either m a b =
     (case opt_includes m a of
        Inl te \<Rightarrow> Inl te
      | Inr x \<Rightarrow>
          if x = Some True then Inr True
          else (case opt_includes m b of
                  Inl te \<Rightarrow> Inl te
                | Inr y \<Rightarrow> Inr (y = Some True)))"

definition caldav_not_configured :: string where
  "caldav_not_configured =
     ''CalDAV connection not configured. Please set CALDAV_SERVER_URL, '' @
     ''CALDAV_USERNAME, CALDAV_PASSWORD environment variables.''"

definition authentication_failed :: string where
  "authentication_failed = ''Authentication failed. Please check your CalDAV credentials.''"

text \<open>
  Lines 169 to 176: the value of \<open>enhancedError\<close>, or the TypeError that evaluating the
  conditions raises.
\<close>

definition enhancedError :: "mcp_error_codes \<Rightarrow> thrown \<Rightarrow> type_error + thrown" where
  "enhancedError codes error =
     (case message_of error of
        Inl te \<Rightarrow> Inl te
      | Inr m \<Rightarrow>
          (case includes_either m ''caldav'' ''CalDAV'' of
             Inl te \<Rightarrow> Inl te
           | Inr caldav \<Rightarrow>
               if caldav
               then Inr (error_object ((new_Error caldav_not_configured)
                           \<lparr>code := Some (JNum (CALDAV_ERROR codes))\<rparr>))
               else (case includes_either m ''Unauthorized'' ''401'' of
                       Inl te \<Rightarrow> Inl te
                     | Inr unauthorized \<Rightarrow>
                         if unauthorized
                         then Inr (error_object ((new_Error authentication_failed)
                                     \<lparr>code := Some (JNum (AUTH_ERROR codes))\<rparr>))
                         else Inr error)))"

text \<open>
  The rules in the words of the specification. A message can be read when it is absent,
  \<open>null\<close>, a string or an array. It mentions a term when the term occurs in the string
  as a contiguous piece (or is a member of the array). The rule that applies is the first
  in the order remote-protocol terms, unauthorized/401, anything else; under the last the
  thrown value is left as it is.
\<close>

datatype rule = REMOTE_NOT_CONFIGURED | AUTH_FAILED | UNCHANGED

fun readable :: "json option \<Rightarrow> bool" where
  "readable None = True"
| "readable (Some JNull) = True"
| "readable (Some (JStr s)) = True"
| "readable (Some (JArr xs)) = True"
| "readable (Some v) = False"

definition mentions :: "json option \<Rightarrow> string \<Rightarrow> bool" where
  "mentions m t =
     ((\<exists>s pre suf. m = Some (JStr s) \<and> s = pre @ t @ suf) \<or>
      (\<exists>xs. m = Some (JArr xs) \<and> JStr t \<in> set xs))"

definition rule_of_message :: "json option \<Rightarrow> rule" where
  "rule_of_message m =
     (if mentions m ''caldav'' \<or> mentions m ''CalDAV'' then REMOTE_NOT_CONFIGURED
      else if mentions m ''Unauthorized'' \<or> mentions m ''401'' then AUTH_FAILED
      else UNCHANGED)"

definition translated :: "mcp_error_codes \<Rightarrow> rule \<Rightarrow> thrown \<Rightarrow> thrown" where
  "translated codes r error =
     (case r of
        REMOTE_NOT_CONFIGURED \<Rightarrow>
          ThrownObject \<lparr>message_value = Some (JStr caldav_not_configured),
                        code_value = Some (JNum (CALDAV_ERROR codes)), properties = []\<rparr>
      | AUTH_FAILED \<Rightarrow>
          ThrownObject \<lparr>message_value = Some (JStr authentication_failed),
                        code_value = Some (JNum (AUTH_ERROR codes)), properties = []\<rparr>
      | UNCHANGED \<Rightarrow> error)"


section \<open>The tool registry and the dispatcher\<close>

text \<open>
  \<open>tools\<close> is imported from \<open>./tools/index.js\<close> and taken as a parameter: a list of
  objects with \<open>name\<close>, \<open>description\<close>, \<open>inputSchema\<close> and \<open>handler\<close>, and
  whatever further fields the registry keeps (the record's extension). A handler is
  awaited and is taken to settle: it either returns a result or throws a value.
\<close>

record tool_entry =
  name :: string
  description :: string
  inputSchema :: json

record tool = tool_entry +
  handler :: "jobject \<Rightarrow> thrown + json"

record call_request =
  params_name :: string
  params_arguments :: "jobject option"

text \<open>
  Everything the program does to the outside, in the order it does it: lines of the
  request logger and of the process logger (level, structured fields, message; stack
  traces are left out), console lines, the three calls of the tool-call logger with
  their arguments, the probe of the remote session, the call of a tool's handler, and
  the steps of startup and shutdown.
\<close>

datatype level = Debug | Info | Warn | Err

record call_meta =
  requestId :: string
  transport :: string
  duration :: "int option"

record tsdav_config =
  serverUrl :: "string option"
  authMethod :: string
  username :: "string option"
  password :: "string option"
  clientId :: "string option"
  clientSecret :: "string option"
  refreshToken :: "string option"
  tokenUrl :: "string option"

datatype startup_step =
    InitializeToolCallLogger
  | CreateMCPServer
  | NewStdioServerTransport
  | Connect
  | RegisterShutdownHandlers
  | PerformHealthCheck

datatype event =
    RequestLog string level jobject string
  | Logger level jobject string
  | ConsoleLog string
  | ConsoleError string
  | LogToolCallStart string jobject call_meta
  | LogToolCallSuccess string jobject json call_meta
  | LogToolCallError string jobject thrown call_meta
  | GetCalDavClient
  | HandlerCall string jobject
  | TsdavInitialize tsdav_config
  | Startup startup_step
  | TransportClose
  | ClearInterval
  | ProcessExit int

text \<open>
  The parameters of the dispatcher: the registry, the error codes, \<open>NODE_ENV\<close>, and
  whether the remote session has been initialized.
\<close>

record 'z dispatcher_env =
  tools :: "'z tool_scheme list"
  MCP_ERROR_CODES :: mcp_error_codes
  NODE_ENV :: "string option"
  tsdav_initialized :: bool

text \<open>
  Modelled from the spec: \<open>tsdavManager.getCalDavClient\<close> (\<open>./tsdav-client.js\<close> is not
  among the sources). Section 6: the accessor methods of the remote client facade raise
  on use before initialize. The dispatcher discards the error it catches.
\<close>

definition getCalDavClient_throws :: "'z dispatcher_env \<Rightarrow> bool" where
  "getCalDavClient_throws env = (\<not> tsdav_initialized env)"

text \<open>
  What the promise of a request handler settles to: it resolves to a response, or it
  rejects, with the error the handler throws for an unknown tool or with the TypeError
  raised inside its catch block. \<open>createToolErrorResponse\<close> is imported from
  \<open>./error-handler.js\<close>: the response it builds is kept as the constructor applied to
  its two arguments.
\<close>

datatype response =
    HandlerResult json
  | ToolErrorResponse thrown bool

datatype outcome = Resolves response | Rejects js_error | RejectsWith type_error

text \<open>The fields of a log line; a field whose value is \<open>undefined\<close> is not written.\<close>

definition field :: "string \<Rightarrow> string option \<Rightarrow> jobject" where
  "field k v = (case v of None \<Rightarrow> [] | Some s \<Rightarrow> [(k, JStr s)])"

definition listTools :: "'z dispatcher_env \<Rightarrow> string \<Rightarrow> tool_entry list \<times> event list" where
  "listTools env rid =
     (let toolList = map (\<lambda>t. \<lparr>name = name t, description = description t,
                                inputSchema = inputSchema t\<rparr>) (tools env)
      in (toolList,
          [RequestLog rid Debug [] ''tools/list request received'',
           RequestLog rid Debug [(''count'', JNum (int (length toolList)))]
             ''Returning tools list'']))"

definition needsTsdav :: "string \<Rightarrow> bool" where
  "needsTsdav toolName =
     (toolName \<noteq> ''list_calendars'' \<and> toolName \<noteq> ''list_addressbooks'' \<and>
      toolName \<noteq> ''list_todos'')"

definition not_initialized_warning :: "string \<Rightarrow> string" where
  "not_initialized_warning toolName =
     ''[DAV-MCP] Warning: CalDAV not initialized for tool '' @ [CHR 0x27] @ toolName @
     [CHR 0x27] @ ''. This may fail.''"

definition precondition_check :: "'z dispatcher_env \<Rightarrow> string \<Rightarrow> string \<Rightarrow> event list" where
  "precondition_check env rid toolName =
     (if needsTsdav toolName
      then GetCalDavClient #
           (if getCalDavClient_throws env
            then [RequestLog rid Warn [] ''CalDAV client not initialized, tool may fail'',
                  ConsoleLog (not_initialized_warning toolName)]
            else [])
      else [])"

text \<open>
  The catch block of the tools/call handler (lines 163 to 186). Line 166 reads
  \<open>error.message\<close> for the log line, lines 169 to 176 compute \<open>enhancedError\<close>; a
  TypeError raised by either leaves the block, and the promise of the handler rejects
  with it.
\<close>

definition catch_block ::
  "'z dispatcher_env \<Rightarrow> string \<Rightarrow> string \<Rightarrow> jobject \<Rightarrow> call_meta \<Rightarrow> thrown \<Rightarrow>
   outcome \<times> event list" where
  "catch_block env rid toolName args meta error =
     (case message_of error of
        Inl te \<Rightarrow> (RejectsWith te, [])
      | Inr m \<Rightarrow>
          (let logged =
                 [RequestLog rid Err
                    ((''tool'', JStr toolName) #
                     (case m of None \<Rightarrow> [] | Some v \<Rightarrow> [(''error'', v)]))
                    ''Tool execution error'']
           in case enhancedError (MCP_ERROR_CODES env) error of
                Inl te \<Rightarrow> (RejectsWith te, logged)
              | Inr enhanced \<Rightarrow>
                  (Resolves (ToolErrorResponse enhanced
                               (NODE_ENV env = Some ''development'')),
                   logged @ [LogToolCallError toolName args enhanced meta])))"

text \<open>
  The tools/call handler. \<open>rid\<close> is the UUID drawn for the request; \<open>startTime\<close> and
  \<open>endTime\<close> are the two readings of \<open>Date.now()\<close>. The methods of the two loggers
  record their arguments and return.
\<close>

definition callTool ::
  "'z dispatcher_env \<Rightarrow> string \<Rightarrow> int \<Rightarrow> int \<Rightarrow> call_request \<Rightarrow> outcome \<times> event list" where
  "callTool env rid startTime endTime request =
     (let toolName = params_name request;
          args = (case params_arguments request of None \<Rightarrow> [] | Some a \<Rightarrow> a);
          received = [RequestLog rid Info [(''tool'', JStr toolName), (''args'', JObj args)]
                        ''tools/call request received'']
      in case find (\<lambda>t. name t = toolName) (tools env) of
           None \<Rightarrow>
             (Rejects ((new_Error (''Unknown tool: '' @ toolName))
                \<lparr>code := Some (JNum (METHOD_NOT_FOUND (MCP_ERROR_CODES env)))\<rparr>),
              received @ [RequestLog rid Err [(''tool'', JStr toolName)] ''Tool not found''])
         | Some t \<Rightarrow>
             (let started = received @
                    [LogToolCallStart toolName args
                       \<lparr>requestId = rid, transport = ''stdio'', duration = None\<rparr>,
                     RequestLog rid Debug [(''tool'', JStr toolName)] ''Executing tool''] @
                    precondition_check env rid toolName @
                    [HandlerCall toolName args];
                  meta = \<lparr>requestId = rid, transport = ''stdio'',
                          duration = Some (endTime - startTime)\<rparr>
              in case handler t args of
                   Inr result \<Rightarrow>
                     (Resolves (HandlerResult result),
                      started @
                        [RequestLog rid Info [(''tool'', JStr toolName)]
                           ''Tool executed successfully'',
                         LogToolCallSuccess toolName args result meta])
                 | Inl error \<Rightarrow>
                     (case catch_block env rid toolName args meta error of
                        (out, evs) \<Rightarrow> (out, started @ evs))))"

text \<open>The events of the tool-call logger, and the points of a trace a claim speaks of.\<close>

fun is_start :: "event \<Rightarrow> bool" where
  "is_start (LogToolCallStart n a m) = True"
| "is_start e = False"

fun is_terminal :: "event \<Rightarrow> bool" where
  "is_terminal (LogToolCallSuccess n a r m) = True"
| "is_terminal (LogToolCallError n a e m) = True"
| "is_terminal e = False"

fun is_handler_call :: "event \<Rightarrow> bool" where
  "is_handler_call (HandlerCall n a) = True"
| "is_handler_call e = False"

fun is_warning :: "event \<Rightarrow> bool" where
  "is_warning (RequestLog r Warn f m) = True"
| "is_warning (ConsoleLog m) = True"
| "is_warning e = False"

definition args_of :: "call_request \<Rightarrow> jobject" where
  "args_of request = (case params_arguments request of None \<Rightarrow> [] | Some a \<Rightarrow> a)"

text \<open>
  A response of the class the specification calls RemoteNotConfigured: an error response
  built from an error that carries the CalDAV code.
\<close>

definition remote_not_configured :: "mcp_error_codes \<Rightarrow> outcome \<Rightarrow> bool" where
  "remote_not_configured codes out =
     (case out of
        Resolves (ToolErrorResponse e dev) \<Rightarrow> code_of e = Some (JNum (CALDAV_ERROR codes))
      | _ \<Rightarrow> False)"

text \<open>The second argument of the tool-call logger once the handler has settled.\<close>

definition settled_meta :: "string \<Rightarrow> int \<Rightarrow> int \<Rightarrow> call_meta" where
  "settled_meta rid startTime endTime =
     \<lparr>requestId = rid, transport = ''stdio'', duration = Some (endTime - startTime)\<rparr>"

section \<open>The process: startup and shutdown\<close>

text \<open>
  The environment variables \<open>start\<close> and \<open>initializeTsdav\<close> read. A variable is unset
  (\<open>None\<close>) or a string; in a condition and on the left of \<open>||\<close> the empty string
  counts as unset.
\<close>

record startup_env =
  CALDAV_SERVER_URL :: "string option"
  CALDAV_USERNAME :: "string option"
  CALDAV_PASSWORD :: "string option"
  GOOGLE_CLIENT_ID :: "string option"
  GOOGLE_CLIENT_SECRET :: "string option"
  GOOGLE_REFRESH_TOKEN :: "string option"
  GOOGLE_SERVER_URL :: "string option"
  GOOGLE_USER :: "string option"
  GOOGLE_TOKEN_URL :: "string option"
  AUTH_METHOD :: "string option"

definition truthy :: "string option \<Rightarrow> bool" where
  "truthy v = (case v of None \<Rightarrow> False | Some s \<Rightarrow> s \<noteq> [])"

definition or_default :: "string option \<Rightarrow> string \<Rightarrow> string" where
  "or_default v d = (case v of None \<Rightarrow> d | Some s \<Rightarrow> if s = [] then d else s)"

text \<open>
  The collaborators of startup, as parameters: what \<open>tsdavManager.initialize\<close> does
  with a configuration (\<open>None\<close>: it resolves; \<open>Some e\<close>: it throws \<open>e\<close>), and the fault,
  if any, that each later step of \<open>start\<close> raises.
\<close>

record startup_world =
  tsdav_initialize :: "tsdav_config \<Rightarrow> js_error option"
  step_fault :: "startup_step \<Rightarrow> js_error option"

text \<open>
  The state of the process: where it is in its life, whether the remote session is
  initialized, the two globals that \<open>gracefulShutdown\<close> reads, whether the shutdown
  handlers are registered, and what it has done so far.
\<close>

datatype phase = Starting | Connected | Terminated int

record process_state =
  phase :: phase
  session_initialized :: bool
  global_transport :: bool
  global_cleanupInterval :: bool
  shutdown_handlers :: bool
  trace :: "event list"

definition emit :: "event list \<Rightarrow> process_state \<Rightarrow> process_state" where
  "emit evs s = s\<lparr>trace := trace s @ evs\<rparr>"

definition template_message :: "js_error \<Rightarrow> string" where
  "template_message e = (case message e of None \<Rightarrow> ''undefined'' | Some m \<Rightarrow> m)"

text \<open>
  \<open>initializeTsdav\<close>: the events it leaves and the error it throws, if any. Its
  \<open>catch\<close> logs the failure and throws it again.
\<close>

definition initializeTsdav :: "startup_world \<Rightarrow> startup_env \<Rightarrow> event list \<times> js_error option" where
  "initializeTsdav w env =
     (let method = or_default (AUTH_METHOD env) ''Basic'';
          oauth = (method = ''OAuth'' \<or> method = ''Oauth'');
          config =
            (if oauth
             then \<lparr>serverUrl = Some (or_default (GOOGLE_SERVER_URL env)
                                  ''https://apidata.googleusercontent.com/caldav/v2/''),
                   authMethod = ''OAuth'', username = GOOGLE_USER env, password = None,
                   clientId = GOOGLE_CLIENT_ID env, clientSecret = GOOGLE_CLIENT_SECRET env,
                   refreshToken = GOOGLE_REFRESH_TOKEN env,
                   tokenUrl = Some (or_default (GOOGLE_TOKEN_URL env)
                                  ''https://accounts.google.com/o/oauth2/token'')\<rparr>
             else \<lparr>serverUrl = CALDAV_SERVER_URL env, authMethod = ''Basic'',
                   username = CALDAV_USERNAME env, password = CALDAV_PASSWORD env,
                   clientId = None, clientSecret = None, refreshToken = None,
                   tokenUrl = None\<rparr>);
          complete =
            (if oauth
             then truthy (GOOGLE_CLIENT_ID env) \<and> truthy (GOOGLE_CLIENT_SECRET env) \<and>
                  truthy (GOOGLE_REFRESH_TOKEN env)
             else truthy (CALDAV_SERVER_URL env) \<and> truthy (CALDAV_USERNAME env) \<and>
                  truthy (CALDAV_PASSWORD env));
          begun = [Logger Info [] (if oauth then ''Initializing with OAuth2 authentication''
                                   else ''Initializing with Basic authentication'')];
          thrown =
            (if \<not> complete
             then Some (new_Error
                    (if oauth
                     then ''OAuth2 requires GOOGLE_CLIENT_ID, GOOGLE_CLIENT_SECRET, and GOOGLE_REFRESH_TOKEN''
                     else ''Basic Auth requires CALDAV_SERVER_URL, CALDAV_USERNAME, and CALDAV_PASSWORD''))
             else tsdav_initialize w config);
          called = (if complete then [TsdavInitialize config] else [])
      in case thrown of
           None \<Rightarrow>
             (begun @ called @
                [Logger Info [] (if oauth then ''OAuth2 clients initialized successfully''
                                 else ''Basic Auth clients initialized successfully''),
                 Logger Info [] ''tsdav clients initialized successfully''],
              None)
         | Some e \<Rightarrow>
             (begun @ called @
                [Logger Err (field ''error'' (message e)) ''Failed to initialize tsdav clients''],
              Some e))"

definition hasBasicAuth :: "startup_env \<Rightarrow> bool" where
  "hasBasicAuth env =
     (truthy (CALDAV_SERVER_URL env) \<and> truthy (CALDAV_USERNAME env) \<and>
      truthy (CALDAV_PASSWORD env))"

definition hasOAuth2 :: "startup_env \<Rightarrow> bool" where
  "hasOAuth2 env =
     (truthy (GOOGLE_CLIENT_ID env) \<and> truthy (GOOGLE_CLIENT_SECRET env) \<and>
      truthy (GOOGLE_REFRESH_TOKEN env))"

definition no_credentials_warning :: "event list" where
  "no_credentials_warning =
     [ConsoleLog (''[DAV-MCP] Warning: No CalDAV credentials found. '' @
                  ''Server will start but tools will fail until configured.''),
      ConsoleLog (''[DAV-MCP] Configure: CALDAV_SERVER_URL, CALDAV_USERNAME, '' @
                  ''CALDAV_PASSWORD for Basic Auth''),
      ConsoleLog ''[DAV-MCP] Or configure GOOGLE_* variables for OAuth2'',
      ConsoleLog ''[DAV-MCP] Or set AUTH_METHOD=Dummy for testing'']"

definition initialization_failed :: "js_error \<Rightarrow> event list" where
  "initialization_failed e =
     [ConsoleLog (''[DAV-MCP] CalDAV initialization failed, '' @
                  ''but continuing with limited functionality:''),
      ConsoleLog (''[DAV-MCP] Error: '' @ template_message e)]"

text \<open>
  Modelled from the spec: the session state that \<open>tsdavManager\<close> keeps
  (\<open>./tsdav-client.js\<close> is not among the sources). Sections 3 and 4.4: the session is
  initialized once initialization has succeeded and is left uninitialized when it was
  not attempted (\<open>None\<close>) or failed (\<open>Some (Some e)\<close>).
\<close>

definition initialized_after :: "js_error option option \<Rightarrow> bool" where
  "initialized_after attempt = (attempt = Some None)"

text \<open>
  The inner \<open>try\<close> of \<open>start\<close>: \<open>initializeTsdav\<close> is called when credentials
  are present; a failure is printed and swallowed.
\<close>

definition skipping_initialization :: event where
  "skipping_initialization =
     ConsoleLog ''[DAV-MCP] Skipping tsdav initialization - no credentials provided''"

definition initialize_session :: "startup_world \<Rightarrow> startup_env \<Rightarrow> event list \<times> bool" where
  "initialize_session w env =
     (if hasBasicAuth env \<or> hasOAuth2 env
      then (case initializeTsdav w env of
              (evs, None) \<Rightarrow> (evs, initialized_after (Some None))
            | (evs, Some e) \<Rightarrow>
                (evs @ initialization_failed e, initialized_after (Some (Some e))))
      else ([skipping_initialization], initialized_after None))"

text \<open>The steps of \<open>start\<close> after the inner \<open>try\<close>, in the order of the source.\<close>

definition startup_steps :: "startup_step list" where
  "startup_steps =
     [InitializeToolCallLogger, CreateMCPServer, NewStdioServerTransport, Connect,
      RegisterShutdownHandlers, PerformHealthCheck]"

fun do_step :: "startup_step \<Rightarrow> process_state \<Rightarrow> process_state" where
  "do_step InitializeToolCallLogger s =
     emit [Startup InitializeToolCallLogger, Logger Info [] ''Tool call logger initialized''] s"
| "do_step CreateMCPServer s =
     emit [Startup CreateMCPServer, Logger Info [] ''MCP Server created for STDIO transport''] s"
| "do_step NewStdioServerTransport s =
     emit [Startup NewStdioServerTransport] (s\<lparr>global_transport := True\<rparr>)"
| "do_step Connect s = emit [Startup Connect] s"
| "do_step RegisterShutdownHandlers s =
     emit [Startup RegisterShutdownHandlers] (s\<lparr>shutdown_handlers := True\<rparr>)"
| "do_step PerformHealthCheck s =
     emit [Startup PerformHealthCheck, Logger Debug [] ''Health check performed''] s"

fun run_steps ::
  "(startup_step \<Rightarrow> js_error option) \<Rightarrow> startup_step list \<Rightarrow> process_state \<Rightarrow>
   js_error option \<times> process_state" where
  "run_steps f [] s = (None, s)"
| "run_steps f (x # xs) s =
     (case f x of Some e \<Rightarrow> (Some e, s) | None \<Rightarrow> run_steps f xs (do_step x s))"

definition initial_state :: process_state where
  "initial_state =
     \<lparr>phase = Starting, session_initialized = False, global_transport = False,
      global_cleanupInterval = False, shutdown_handlers = False, trace = []\<rparr>"

text \<open>
  \<open>start\<close>. Of the lines written once the health check is done, the first console
  line and the log line are kept; the stack trace printed in development mode is left
  out. A fault of any step after the inner \<open>try\<close> reaches the outer \<open>catch\<close>,
  which exits with code 1.
\<close>

definition start :: "startup_world \<Rightarrow> startup_env \<Rightarrow> process_state" where
  "start w env =
     (let greeting = [ConsoleLog ''[DAV-MCP] Starting STDIO server...'',
                      Logger Info [] ''Starting DAV-MCP Server (STDIO mode)...''];
          warning = (if \<not> hasBasicAuth env \<and> \<not> hasOAuth2 env \<and>
                        or_default (AUTH_METHOD env) ''Basic'' \<noteq> ''Dummy''
                     then no_credentials_warning else []);
          (evs, initialized) = initialize_session w env;
          s0 = emit (greeting @ warning @ evs)
                 (initial_state\<lparr>session_initialized := initialized\<rparr>)
      in case run_steps (step_fault w) startup_steps s0 of
           (None, s) \<Rightarrow>
             (emit [ConsoleLog ''[DAV-MCP] Server started successfully!'',
                    Logger Info [] ''DAV-MCP Server ready (STDIO mode)''] s)
               \<lparr>phase := Connected\<rparr>
         | (Some e, s) \<Rightarrow>
             (emit [ConsoleError ''[DAV-MCP] Failed to start server:'',
                    ConsoleError (''[DAV-MCP] Error: '' @ template_message e),
                    Logger Err (field ''error'' (message e)) ''Failed to start server'',
                    ProcessExit 1] s)
               \<lparr>phase := Terminated 1\<rparr>)"














section \<open>Example inputs\<close>

definition example_codes :: mcp_error_codes where
  "example_codes =
     \<lparr>METHOD_NOT_FOUND = - 32601, CALDAV_ERROR = - 32000, AUTH_ERROR = - 32002,
      INTERNAL_ERROR = - 32603\<rparr>"

definition boom :: thrown where
  "boom = ThrownObject \<lparr>message_value = Some (JStr ''boom''),
                         code_value = Some (JStr ''ECONNRESET''), properties = []\<rparr>"

definition unavailable :: thrown where
  "unavailable = ThrownObject \<lparr>message_value = Some (JNum 503), code_value = None,
                                properties = []\<rparr>"

definition example_tools :: "tool list" where
  "example_tools =
     [\<lparr>name = ''list_calendars'', description = ''List all available calendars'',
       inputSchema = JObj [(''type'', JStr ''object'')],
       handler = (\<lambda>a. Inr (JObj [(''content'', JArr [])]))\<rparr>,
      \<lparr>name = ''list_events'', description = ''List events of a calendar'',
       inputSchema = JObj [(''type'', JStr ''object'')],
       handler = (\<lambda>a. Inl (error_object (new_Error ''CalDAV client not initialized'')))\<rparr>,
      \<lparr>name = ''list_contacts'', description = ''List contacts of an address book'',
       inputSchema = JObj [(''type'', JStr ''object'')],
       handler = (\<lambda>a. Inl (error_object (new_Error ''CardDAV client not initialized'')))\<rparr>,
      \<lparr>name = ''delete_event'', description = ''Delete an event'',
       inputSchema = JObj [(''type'', JStr ''object'')],
       handler = (\<lambda>a. Inl Nullish)\<rparr>,
      \<lparr>name = ''update_event'', description = ''Update an event'',
       inputSchema = JObj [(''type'', JStr ''object'')],
       handler = (\<lambda>a. Inl unavailable)\<rparr>]"

definition example_env :: "unit dispatcher_env" where
  "example_env =
     \<lparr>tools = example_tools, MCP_ERROR_CODES = example_codes, NODE_ENV = None,
      tsdav_initialized = False\<rparr>"

definition example_call :: "string \<Rightarrow> call_request" where
  "example_call n = \<lparr>params_name = n, params_arguments = None\<rparr>"








section \<open>Properties of the error translation\<close>

lemma str_includes_iff: "str_includes s t \<longleftrightarrow> (\<exists>pre suf. s = pre @ t @ suf)"
proof (induction s)
  case Nil
  then show ?case by auto
next
  case (Cons c cs)
  have "(\<exists>pre suf. c # cs = pre @ t @ suf) \<longleftrightarrow>
        (take (length t) (c # cs) = t \<or> (\<exists>pre suf. cs = pre @ t @ suf))"
  proof
    assume "\<exists>pre suf. c # cs = pre @ t @ suf"
    then obtain pre suf where eq: "c # cs = pre @ t @ suf" by blast
    show "take (length t) (c # cs) = t \<or> (\<exists>pre suf. cs = pre @ t @ suf)"
    proof (cases pre)
      case Nil
      with eq have "take (length t) (c # cs) = t" by simp
      then show ?thesis by simp
    next
      case (Cons p ps)
      with eq have "cs = ps @ t @ suf" by simp
      then show ?thesis by blast
    qed
  next
    assume "take (length t) (c # cs) = t \<or> (\<exists>pre suf. cs = pre @ t @ suf)"
    then show "\<exists>pre suf. c # cs = pre @ t @ suf"
    proof
      assume "take (length t) (c # cs) = t"
      then have "c # cs = [] @ t @ drop (length t) (c # cs)"
        by (metis append_Nil append_take_drop_id)
      then show ?thesis by blast
    next
      assume "\<exists>pre suf. cs = pre @ t @ suf"
      then obtain pre suf where "cs = pre @ t @ suf" by blast
      then have "c # cs = (c # pre) @ t @ suf" by simp
      then show ?thesis by blast
    qed
  qed
  with Cons show ?case by simp
qed

lemma opt_includes_readable:
  "opt_includes m t =
     (if readable m
      then Inr (if m = None \<or> m = Some JNull then None else Some (mentions m t))
      else Inl TypeError)"
proof (cases m)
  case None
  then show ?thesis by simp
next
  case (Some v)
  then show ?thesis
    by (cases v) (auto simp: mentions_def str_includes_iff)
qed

lemma includes_either_readable:
  "includes_either m a b =
     (if readable m then Inr (mentions m a \<or> mentions m b) else Inl TypeError)"
  by (auto simp: includes_either_def opt_includes_readable mentions_def)

lemma enhancedError_translated:
  "enhancedError codes error =
     (case message_of error of
        Inl te \<Rightarrow> Inl te
      | Inr m \<Rightarrow>
          if readable m then Inr (translated codes (rule_of_message m) error)
          else Inl TypeError)"
  by (simp add: enhancedError_def includes_either_readable translated_def rule_of_message_def
      error_object_def new_Error_def split: sum.splits)

text \<open>
  C4, amended. The translation applied to a failed tool call picks its rule from the
  message of the thrown value alone, in the fixed order: a message that mentions
  caldav/CalDAV gives the templated configuration error with the CalDAV code; otherwise
  a message that mentions Unauthorized/401 gives the templated authentication error
  with the auth code; otherwise the thrown value is returned as it is, with whatever
  code it carries and no INTERNAL tag. The translation has a result for every thrown
  value that is neither \<open>null\<close> nor \<open>undefined\<close> and whose message is absent,
  \<open>null\<close>, a string or an array.
\<close>

theorem translation_rules:
  "enhancedError codes error =
     (case message_of error of
        Inl te \<Rightarrow> Inl te
      | Inr m \<Rightarrow>
          if readable m then Inr (translated codes (rule_of_message m) error)
          else Inl TypeError)"
  by (rule enhancedError_translated)

text \<open>
  C4, as stated, fails: an error whose message mentions none of the terms comes back
  unchanged, with the code it was thrown with and not the INTERNAL one; and the
  translation raises a TypeError for a message that is a number, and for \<open>null\<close>.
\<close>

theorem translation_rules_counterexample:
  "enhancedError example_codes boom = Inr boom \<and>
   code_of boom \<noteq> Some (JNum (INTERNAL_ERROR example_codes)) \<and>
   enhancedError example_codes unavailable = Inl TypeError \<and>
   enhancedError example_codes Nullish = Inl TypeError"
  by (simp add: enhancedError_def includes_either_def boom_def unavailable_def)

theorem translation_rules_witness:
  "enhancedError example_codes (error_object (new_Error ''CalDAV 401 Unauthorized'')) =
     Inr (ThrownObject \<lparr>message_value = Some (JStr caldav_not_configured),
                         code_value = Some (JNum (- 32000)), properties = []\<rparr>) \<and>
   enhancedError example_codes (error_object (new_Error ''HTTP 401'')) =
     Inr (ThrownObject \<lparr>message_value = Some (JStr authentication_failed),
                         code_value = Some (JNum (- 32002)), properties = []\<rparr>) \<and>
   enhancedError example_codes boom = Inr boom"
proof -
  have m1: "mentions (Some (JStr ''CalDAV 401 Unauthorized'')) ''CalDAV''"
    unfolding mentions_def by (rule disjI1, rule exI [of _ "''CalDAV 401 Unauthorized''"],
      rule exI [of _ "[]"], simp)
  have m2: "\<not> mentions (Some (JStr ''HTTP 401'')) ''caldav''"
    "\<not> mentions (Some (JStr ''HTTP 401'')) ''CalDAV''"
    "mentions (Some (JStr ''HTTP 401'')) ''401''"
    using opt_includes_readable [of "Some (JStr ''HTTP 401'')" "''caldav''"]
      opt_includes_readable [of "Some (JStr ''HTTP 401'')" "''CalDAV''"]
      opt_includes_readable [of "Some (JStr ''HTTP 401'')" "''401''"]
    by simp_all
  have m3: "\<not> mentions (Some (JStr ''boom'')) ''caldav''"
    "\<not> mentions (Some (JStr ''boom'')) ''CalDAV''"
    "\<not> mentions (Some (JStr ''boom'')) ''Unauthorized''"
    "\<not> mentions (Some (JStr ''boom'')) ''401''"
    using opt_includes_readable [of "Some (JStr ''boom'')" "''caldav''"]
      opt_includes_readable [of "Some (JStr ''boom'')" "''CalDAV''"]
      opt_includes_readable [of "Some (JStr ''boom'')" "''Unauthorized''"]
      opt_includes_readable [of "Some (JStr ''boom'')" "''401''"]
    by simp_all
  show ?thesis
    using translation_rules [of example_codes "error_object (new_Error ''CalDAV 401 Unauthorized'')"]
      translation_rules [of example_codes "error_object (new_Error ''HTTP 401'')"]
      translation_rules [of example_codes boom]
      m1 m2 m3
    by (simp add: error_object_def new_Error_def boom_def rule_of_message_def translated_def
        example_codes_def)
qed

section \<open>Properties of the dispatcher\<close>


lemma catch_block_outcome:
  "fst (catch_block env rid n a meta error) =
     (case message_of error of
        Inl te \<Rightarrow> RejectsWith te
      | Inr m \<Rightarrow>
          if readable m
          then Resolves (ToolErrorResponse
                           (translated (MCP_ERROR_CODES env) (rule_of_message m) error)
                           (NODE_ENV env = Some ''development''))
          else RejectsWith TypeError)"
  by (simp add: catch_block_def enhancedError_translated Let_def split: sum.splits)


lemma catch_block_quiet:
  "filter (\<lambda>e. e = GetCalDavClient \<or> is_handler_call e)
     (snd (catch_block env rid n a meta error)) = []"
  "filter is_warning (snd (catch_block env rid n a meta error)) = []"
  by (simp_all add: catch_block_def Let_def split: sum.splits)

lemma catch_block_session:
  "catch_block (env\<lparr>tsdav_initialized := b\<rparr>) rid n a meta error =
   catch_block env rid n a meta error"
  by (simp add: catch_block_def Let_def split: sum.splits)

lemma callTool_registered:
  assumes "find (\<lambda>t. name t = params_name request) (tools env) = Some t"
  shows "callTool env rid t0 t1 request =
         (case handler t (args_of request) of
            Inr result \<Rightarrow>
              (Resolves (HandlerResult result),
               [RequestLog rid Info
                  [(''tool'', JStr (params_name request)), (''args'', JObj (args_of request))]
                  ''tools/call request received'',
                LogToolCallStart (params_name request) (args_of request)
                  \<lparr>requestId = rid, transport = ''stdio'', duration = None\<rparr>,
                RequestLog rid Debug [(''tool'', JStr (params_name request))]
                  ''Executing tool''] @
               precondition_check env rid (params_name request) @
               [HandlerCall (params_name request) (args_of request),
                RequestLog rid Info [(''tool'', JStr (params_name request))]
                  ''Tool executed successfully'',
                LogToolCallSuccess (params_name request) (args_of request) result
                  (settled_meta rid t0 t1)])
          | Inl error \<Rightarrow>
              (fst (catch_block env rid (params_name request) (args_of request)
                      (settled_meta rid t0 t1) error),
               [RequestLog rid Info
                  [(''tool'', JStr (params_name request)), (''args'', JObj (args_of request))]
                  ''tools/call request received'',
                LogToolCallStart (params_name request) (args_of request)
                  \<lparr>requestId = rid, transport = ''stdio'', duration = None\<rparr>,
                RequestLog rid Debug [(''tool'', JStr (params_name request))]
                  ''Executing tool''] @
               precondition_check env rid (params_name request) @
               [HandlerCall (params_name request) (args_of request)] @
               snd (catch_block env rid (params_name request) (args_of request)
                      (settled_meta rid t0 t1) error)))"
  using assms
  by (simp add: callTool_def args_of_def settled_meta_def Let_def
      split: sum.splits prod.splits)

lemma example_resolves:
  "find (\<lambda>t. name t = params_name (example_call ''list_calendars'')) (tools example_env) =
     Some (example_tools ! 0)"
  "find (\<lambda>t. name t = params_name (example_call ''list_events'')) (tools example_env) =
     Some (example_tools ! 1)"
  "find (\<lambda>t. name t = params_name (example_call ''list_contacts'')) (tools example_env) =
     Some (example_tools ! 2)"
  "find (\<lambda>t. name t = params_name (example_call ''delete_event'')) (tools example_env) =
     Some (example_tools ! 3)"
  "find (\<lambda>t. name t = params_name (example_call ''update_event'')) (tools example_env) =
     Some (example_tools ! 4)"
  by (simp_all add: example_env_def example_tools_def example_call_def)

lemma example_handlers:
  "handler (example_tools ! 0) a = Inr (JObj [(''content'', JArr [])])"
  "handler (example_tools ! 1) a = Inl (error_object (new_Error ''CalDAV client not initialized''))"
  "handler (example_tools ! 2) a = Inl (error_object (new_Error ''CardDAV client not initialized''))"
  "handler (example_tools ! 3) a = Inl Nullish"
  "handler (example_tools ! 4) a = Inl unavailable"
  "handler (example_tools ! Suc 0) a =
     Inl (error_object (new_Error ''CalDAV client not initialized''))"
  by (simp_all add: example_tools_def)

lemma example_request:
  "params_name (example_call n) = n" "args_of (example_call n) = []"
  by (simp_all add: example_call_def args_of_def)

lemma example_registered:
  "params_name (example_call ''list_contacts'') \<in> set (map name (tools example_env))"
  "params_name (example_call ''delete_event'') \<in> set (map name (tools example_env))"
  "params_name (example_call ''update_event'') \<in> set (map name (tools example_env))"
  by (simp_all add: example_call_def example_env_def example_tools_def)


lemma example_session:
  "MCP_ERROR_CODES example_env = example_codes" "NODE_ENV example_env = None"
  "\<not> tsdav_initialized example_env"
  by (simp_all add: example_env_def)




text \<open>
  C2. A tools/call request whose tool name is not in the registry is rejected with an
  error that carries the METHOD_NOT_FOUND code and the message \<open>Unknown tool: \<close>
  followed by the name; no start event (and no other event of the tool-call logger) is
  recorded and no handler is called.
\<close>

theorem unknown_tool:
  assumes "params_name request \<notin> set (map name (tools env))"
  shows "fst (callTool env rid t0 t1 request) =
           Rejects \<lparr>message = Some (''Unknown tool: '' @ params_name request),
                    code = Some (JNum (METHOD_NOT_FOUND (MCP_ERROR_CODES env))),
                    other = []\<rparr> \<and>
         filter (\<lambda>e. is_start e \<or> is_terminal e \<or> is_handler_call e)
           (snd (callTool env rid t0 t1 request)) = []"
proof -
  have "find (\<lambda>t. name t = params_name request) (tools env) = None"
    using assms by (auto simp: find_None_iff image_iff)
  then show ?thesis by (simp add: callTool_def new_Error_def Let_def)
qed

theorem unknown_tool_witness:
  "params_name (example_call ''nonexistent_tool'') \<notin> set (map name (tools example_env)) \<and>
   fst (callTool example_env ''r1'' 10 12 (example_call ''nonexistent_tool'')) =
     Rejects \<lparr>message = Some ''Unknown tool: nonexistent_tool'',
              code = Some (JNum (METHOD_NOT_FOUND example_codes)), other = []\<rparr> \<and>
   filter (\<lambda>e. is_start e \<or> is_terminal e \<or> is_handler_call e)
     (snd (callTool example_env ''r1'' 10 12 (example_call ''nonexistent_tool''))) = []"
proof -
  have h: "params_name (example_call ''nonexistent_tool'') \<notin> set (map name (tools example_env))"
    by (simp add: example_call_def example_env_def example_tools_def)
  show ?thesis
    using unknown_tool [OF h, of "''r1''" 10 12] h
    by (simp add: example_call_def example_env_def)
qed




section \<open>Properties of the dispatcher under an uninitialized session\<close>

lemma callTool_session_independent:
  "fst (callTool (env\<lparr>tsdav_initialized := b\<rparr>) rid t0 t1 request) =
   fst (callTool env rid t0 t1 request)"
  by (simp add: callTool_def Let_def catch_block_session
      split: option.splits sum.splits prod.splits)

lemma warned_precondition:
  assumes "needsTsdav n" and "\<not> tsdav_initialized env"
  shows "precondition_check env rid n =
         [GetCalDavClient,
          RequestLog rid Warn [] ''CalDAV client not initialized, tool may fail'',
          ConsoleLog (not_initialized_warning n)]"
  using assms by (simp add: precondition_check_def getCalDavClient_throws_def)

text \<open>
  C5, as stated, fails twice over for a registered tool that requires a remote session,
  called while the session is uninitialized. A handler that throws an error which
  mentions neither caldav nor CalDAV gets a response built from the thrown error as it
  is, without the CalDAV code; a handler that throws \<open>null\<close> or \<open>undefined\<close> makes
  the request reject with a TypeError.
\<close>

theorem uninitialized_session_response_counterexample:
  "params_name (example_call ''list_contacts'') \<in> set (map name (tools example_env)) \<and>
   needsTsdav (params_name (example_call ''list_contacts'')) \<and>
   \<not> tsdav_initialized example_env \<and>
   fst (callTool example_env ''r1'' 10 12 (example_call ''list_contacts'')) =
     Resolves (ToolErrorResponse
       (ThrownObject \<lparr>message_value = Some (JStr ''CardDAV client not initialized''),
                       code_value = None, properties = []\<rparr>) False) \<and>
   \<not> remote_not_configured (MCP_ERROR_CODES example_env)
       (fst (callTool example_env ''r1'' 10 12 (example_call ''list_contacts''))) \<and>
   params_name (example_call ''delete_event'') \<in> set (map name (tools example_env)) \<and>
   needsTsdav (params_name (example_call ''delete_event'')) \<and>
   fst (callTool example_env ''r2'' 10 12 (example_call ''delete_event'')) =
     RejectsWith TypeError"
proof -
  have n: "needsTsdav (params_name (example_call ''list_contacts''))"
    "needsTsdav (params_name (example_call ''delete_event''))"
    by (simp_all add: needsTsdav_def example_call_def)
  have r: "fst (callTool example_env ''r1'' 10 12 (example_call ''list_contacts'')) =
        Resolves (ToolErrorResponse
          (ThrownObject \<lparr>message_value = Some (JStr ''CardDAV client not initialized''),
                          code_value = None, properties = []\<rparr>) False)"
    unfolding callTool_registered [OF example_resolves(3)]
    by (simp add: example_request example_handlers catch_block_def enhancedError_def
        includes_either_def error_object_def new_Error_def Let_def example_env_def
        example_codes_def)
  have x: "\<not> remote_not_configured (MCP_ERROR_CODES example_env)
             (fst (callTool example_env ''r1'' 10 12 (example_call ''list_contacts'')))"
    unfolding r by (simp add: remote_not_configured_def)
  have d: "fst (callTool example_env ''r2'' 10 12 (example_call ''delete_event'')) =
             RejectsWith TypeError"
    unfolding callTool_registered [OF example_resolves(4)]
    by (simp add: example_request example_handlers catch_block_def)
  show ?thesis
    using example_registered(1,2) n example_session(3) r x d by blast
qed

text \<open>
  C5, amended. For a registered tool that requires a remote session, called while the
  session is uninitialized, the dispatcher emits the warning and then calls the
  handler. When the handler returns, the dispatcher resolves to its result. When it
  throws a value that is neither \<open>null\<close> nor \<open>undefined\<close> and whose message is absent,
  \<open>null\<close>, a string or an array, the dispatcher resolves to the error response built
  from the translated value, which is of the RemoteNotConfigured class when the message
  mentions caldav or CalDAV.
\<close>

theorem uninitialized_session_response:
  assumes "find (\<lambda>t. name t = params_name request) (tools env) = Some t"
    and "needsTsdav (params_name request)"
    and "\<not> tsdav_initialized env"
  shows "filter (\<lambda>e. is_warning e \<or> is_handler_call e)
           (snd (callTool env rid t0 t1 request)) =
         [RequestLog rid Warn [] ''CalDAV client not initialized, tool may fail'',
          ConsoleLog (not_initialized_warning (params_name request)),
          HandlerCall (params_name request) (args_of request)] \<and>
         fst (callTool env rid t0 t1 request) =
           (case handler t (args_of request) of
              Inr result \<Rightarrow> Resolves (HandlerResult result)
            | Inl error \<Rightarrow>
                (case message_of error of
                   Inl te \<Rightarrow> RejectsWith te
                 | Inr m \<Rightarrow>
                     if readable m
                     then Resolves (ToolErrorResponse
                            (translated (MCP_ERROR_CODES env) (rule_of_message m) error)
                            (NODE_ENV env = Some ''development''))
                     else RejectsWith TypeError)) \<and>
         (\<forall>error m. handler t (args_of request) = Inl error \<and> message_of error = Inr m \<and>
                    (mentions m ''caldav'' \<or> mentions m ''CalDAV'')
            \<longrightarrow> remote_not_configured (MCP_ERROR_CODES env)
                  (fst (callTool env rid t0 t1 request)))"
proof (intro conjI allI impI)
  show "filter (\<lambda>e. is_warning e \<or> is_handler_call e)
           (snd (callTool env rid t0 t1 request)) =
         [RequestLog rid Warn [] ''CalDAV client not initialized, tool may fail'',
          ConsoleLog (not_initialized_warning (params_name request)),
          HandlerCall (params_name request) (args_of request)]"
    by (simp add: callTool_registered [OF assms(1)] warned_precondition [OF assms(2,3)]
        catch_block_def Let_def split: sum.splits)
  show o: "fst (callTool env rid t0 t1 request) =
           (case handler t (args_of request) of
              Inr result \<Rightarrow> Resolves (HandlerResult result)
            | Inl error \<Rightarrow>
                (case message_of error of
                   Inl te \<Rightarrow> RejectsWith te
                 | Inr m \<Rightarrow>
                     if readable m
                     then Resolves (ToolErrorResponse
                            (translated (MCP_ERROR_CODES env) (rule_of_message m) error)
                            (NODE_ENV env = Some ''development''))
                     else RejectsWith TypeError))"
    by (simp add: callTool_registered [OF assms(1)] catch_block_outcome split: sum.splits)
  fix error m
  assume a: "handler t (args_of request) = Inl error \<and> message_of error = Inr m \<and>
             (mentions m ''caldav'' \<or> mentions m ''CalDAV'')"
  then have "readable m"
    by (cases m) (auto simp: mentions_def)
  with a show "remote_not_configured (MCP_ERROR_CODES env)
                 (fst (callTool env rid t0 t1 request))"
    unfolding o
    by (auto simp: remote_not_configured_def rule_of_message_def translated_def)
qed

theorem uninitialized_session_response_witness:
  "find (\<lambda>t. name t = params_name (example_call ''list_events'')) (tools example_env) =
     Some (example_tools ! 1) \<and>
   needsTsdav (params_name (example_call ''list_events'')) \<and>
   \<not> tsdav_initialized example_env \<and>
   handler (example_tools ! 1) (args_of (example_call ''list_events'')) =
     Inl (error_object (new_Error ''CalDAV client not initialized'')) \<and>
   message_of (error_object (new_Error ''CalDAV client not initialized'')) =
     Inr (Some (JStr ''CalDAV client not initialized'')) \<and>
   mentions (Some (JStr ''CalDAV client not initialized'')) ''CalDAV'' \<and>
   filter (\<lambda>e. is_warning e \<or> is_handler_call e)
     (snd (callTool example_env ''r1'' 10 12 (example_call ''list_events''))) =
   [RequestLog ''r1'' Warn [] ''CalDAV client not initialized, tool may fail'',
    ConsoleLog (not_initialized_warning ''list_events''),
    HandlerCall ''list_events'' []] \<and>
   remote_not_configured (MCP_ERROR_CODES example_env)
     (fst (callTool example_env ''r1'' 10 12 (example_call ''list_events'')))"
proof -
  have n: "needsTsdav (params_name (example_call ''list_events''))"
    by (simp add: needsTsdav_def example_call_def)
  have u: "\<not> tsdav_initialized example_env"
    by (rule example_session(3))
  have h: "handler (example_tools ! 1) (args_of (example_call ''list_events'')) =
             Inl (error_object (new_Error ''CalDAV client not initialized''))"
    by (rule example_handlers(2))
  have g: "message_of (error_object (new_Error ''CalDAV client not initialized'')) =
             Inr (Some (JStr ''CalDAV client not initialized''))"
    by (simp add: error_object_def new_Error_def)
  have m: "mentions (Some (JStr ''CalDAV client not initialized'')) ''CalDAV''"
    unfolding mentions_def
    by (rule disjI1, rule exI [of _ "''CalDAV client not initialized''"],
        rule exI [of _ "[]"], simp)
  have w: "filter (\<lambda>e. is_warning e \<or> is_handler_call e)
     (snd (callTool example_env ''r1'' 10 12 (example_call ''list_events''))) =
   [RequestLog ''r1'' Warn [] ''CalDAV client not initialized, tool may fail'',
    ConsoleLog (not_initialized_warning ''list_events''),
    HandlerCall ''list_events'' []]"
    using uninitialized_session_response [OF example_resolves(2) n u, of "''r1''" 10 12]
    by (simp add: example_request)
  have c: "remote_not_configured (MCP_ERROR_CODES example_env)
     (fst (callTool example_env ''r1'' 10 12 (example_call ''list_events'')))"
    using uninitialized_session_response [OF example_resolves(2) n u, of "''r1''" 10 12]
      h g m by blast
  show ?thesis
    using example_resolves(2) n u h g m w c by blast
qed

text \<open>
  C6. For a registered tool that requires a remote session, with the session
  uninitialized, the dispatcher probes the session, emits the warning (one line of the
  request logger, one on the console) and then calls the handler of the tool on the
  arguments of the request. What the call resolves to and what it records afterwards is
  what that handler's result makes it, and the response is the one given with the
  session initialized: the precondition alone neither stops the call nor decides the
  response.
\<close>

theorem warning_then_handler:
  assumes "find (\<lambda>t. name t = params_name request) (tools env) = Some t"
    and "needsTsdav (params_name request)"
    and "\<not> tsdav_initialized env"
  shows "callTool env rid t0 t1 request =
           (case handler t (args_of request) of
              Inr result \<Rightarrow>
                (Resolves (HandlerResult result),
                 [RequestLog rid Info
                    [(''tool'', JStr (params_name request)),
                     (''args'', JObj (args_of request))]
                    ''tools/call request received'',
                  LogToolCallStart (params_name request) (args_of request)
                    \<lparr>requestId = rid, transport = ''stdio'', duration = None\<rparr>,
                  RequestLog rid Debug [(''tool'', JStr (params_name request))]
                    ''Executing tool'',
                  GetCalDavClient,
                  RequestLog rid Warn [] ''CalDAV client not initialized, tool may fail'',
                  ConsoleLog (not_initialized_warning (params_name request)),
                  HandlerCall (params_name request) (args_of request),
                  RequestLog rid Info [(''tool'', JStr (params_name request))]
                    ''Tool executed successfully'',
                  LogToolCallSuccess (params_name request) (args_of request) result
                    (settled_meta rid t0 t1)])
            | Inl error \<Rightarrow>
                (fst (catch_block env rid (params_name request) (args_of request)
                        (settled_meta rid t0 t1) error),
                 [RequestLog rid Info
                    [(''tool'', JStr (params_name request)),
                     (''args'', JObj (args_of request))]
                    ''tools/call request received'',
                  LogToolCallStart (params_name request) (args_of request)
                    \<lparr>requestId = rid, transport = ''stdio'', duration = None\<rparr>,
                  RequestLog rid Debug [(''tool'', JStr (params_name request))]
                    ''Executing tool'',
                  GetCalDavClient,
                  RequestLog rid Warn [] ''CalDAV client not initialized, tool may fail'',
                  ConsoleLog (not_initialized_warning (params_name request)),
                  HandlerCall (params_name request) (args_of request)] @
                 snd (catch_block env rid (params_name request) (args_of request)
                        (settled_meta rid t0 t1) error))) \<and>
         fst (callTool env rid t0 t1 request) =
           fst (callTool (env\<lparr>tsdav_initialized := True\<rparr>) rid t0 t1 request)"
  by (simp add: callTool_registered [OF assms(1)] warned_precondition [OF assms(2,3)]
      callTool_session_independent split: sum.splits)

theorem warning_then_handler_witness:
  "find (\<lambda>t. name t = params_name (example_call ''list_events'')) (tools example_env) =
     Some (example_tools ! 1) \<and>
   needsTsdav (params_name (example_call ''list_events'')) \<and>
   \<not> tsdav_initialized example_env \<and>
   callTool example_env ''r1'' 10 12 (example_call ''list_events'') =
     (Resolves (ToolErrorResponse
        (ThrownObject \<lparr>message_value = Some (JStr caldav_not_configured),
                        code_value = Some (JNum (- 32000)), properties = []\<rparr>) False),
      [RequestLog ''r1'' Info [(''tool'', JStr ''list_events''), (''args'', JObj [])]
         ''tools/call request received'',
       LogToolCallStart ''list_events'' []
         \<lparr>requestId = ''r1'', transport = ''stdio'', duration = None\<rparr>,
       RequestLog ''r1'' Debug [(''tool'', JStr ''list_events'')] ''Executing tool'',
       GetCalDavClient,
       RequestLog ''r1'' Warn [] ''CalDAV client not initialized, tool may fail'',
       ConsoleLog (not_initialized_warning ''list_events''),
       HandlerCall ''list_events'' [],
       RequestLog ''r1'' Err
         [(''tool'', JStr ''list_events''),
          (''error'', JStr ''CalDAV client not initialized'')]
         ''Tool execution error'',
       LogToolCallError ''list_events'' []
         (ThrownObject \<lparr>message_value = Some (JStr caldav_not_configured),
                         code_value = Some (JNum (- 32000)), properties = []\<rparr>)
         \<lparr>requestId = ''r1'', transport = ''stdio'', duration = Some 2\<rparr>])"
proof -
  have n: "needsTsdav (params_name (example_call ''list_events''))"
    by (simp add: needsTsdav_def example_call_def)
  have u: "\<not> tsdav_initialized example_env"
    by (rule example_session(3))
  have b: "catch_block example_env ''r1'' ''list_events'' [] (settled_meta ''r1'' 10 12)
             (error_object (new_Error ''CalDAV client not initialized'')) =
     (Resolves (ToolErrorResponse
        (ThrownObject \<lparr>message_value = Some (JStr caldav_not_configured),
                        code_value = Some (JNum (- 32000)), properties = []\<rparr>) False),
      [RequestLog ''r1'' Err
         [(''tool'', JStr ''list_events''),
          (''error'', JStr ''CalDAV client not initialized'')]
         ''Tool execution error'',
       LogToolCallError ''list_events'' []
         (ThrownObject \<lparr>message_value = Some (JStr caldav_not_configured),
                         code_value = Some (JNum (- 32000)), properties = []\<rparr>)
         \<lparr>requestId = ''r1'', transport = ''stdio'', duration = Some 2\<rparr>])"
    by (simp add: catch_block_def enhancedError_def includes_either_def error_object_def
        new_Error_def Let_def example_env_def example_codes_def settled_meta_def)
  have c: "callTool example_env ''r1'' 10 12 (example_call ''list_events'') =
     (Resolves (ToolErrorResponse
        (ThrownObject \<lparr>message_value = Some (JStr caldav_not_configured),
                        code_value = Some (JNum (- 32000)), properties = []\<rparr>) False),
      [RequestLog ''r1'' Info [(''tool'', JStr ''list_events''), (''args'', JObj [])]
         ''tools/call request received'',
       LogToolCallStart ''list_events'' []
         \<lparr>requestId = ''r1'', transport = ''stdio'', duration = None\<rparr>,
       RequestLog ''r1'' Debug [(''tool'', JStr ''list_events'')] ''Executing tool'',
       GetCalDavClient,
       RequestLog ''r1'' Warn [] ''CalDAV client not initialized, tool may fail'',
       ConsoleLog (not_initialized_warning ''list_events''),
       HandlerCall ''list_events'' [],
       RequestLog ''r1'' Err
         [(''tool'', JStr ''list_events''),
          (''error'', JStr ''CalDAV client not initialized'')]
         ''Tool execution error'',
       LogToolCallError ''list_events'' []
         (ThrownObject \<lparr>message_value = Some (JStr caldav_not_configured),
                         code_value = Some (JNum (- 32000)), properties = []\<rparr>)
         \<lparr>requestId = ''r1'', transport = ''stdio'', duration = Some 2\<rparr>])"
    using warning_then_handler [OF example_resolves(2) n u, of "''r1''" 10 12]
    by (simp add: example_request example_handlers b)
  show ?thesis
    using example_resolves(2) n u c by blast
qed

text \<open>
  C10. For a registered tool the session is probed, before the handler is called,
  exactly when the name is none of \<open>list_calendars\<close>, \<open>list_addressbooks\<close>,
  \<open>list_todos\<close>; for these three it is never probed.
\<close>

theorem session_check_exemptions:
  assumes "find (\<lambda>t. name t = params_name request) (tools env) = Some t"
  shows "filter (\<lambda>e. e = GetCalDavClient \<or> is_handler_call e)
           (snd (callTool env rid t0 t1 request)) =
         (if params_name request \<in> {''list_calendars'', ''list_addressbooks'', ''list_todos''}
          then []
          else [GetCalDavClient]) @
         [HandlerCall (params_name request) (args_of request)]"
  by (simp add: callTool_registered [OF assms] catch_block_quiet precondition_check_def
      needsTsdav_def split: sum.splits)

theorem session_check_exemptions_witness:
  "find (\<lambda>t. name t = params_name (example_call ''list_events'')) (tools example_env) =
     Some (example_tools ! 1) \<and>
   find (\<lambda>t. name t = params_name (example_call ''list_contacts'')) (tools example_env) =
     Some (example_tools ! 2) \<and>
   find (\<lambda>t. name t = params_name (example_call ''list_calendars'')) (tools example_env) =
     Some (example_tools ! 0) \<and>
   filter (\<lambda>e. e = GetCalDavClient \<or> is_handler_call e)
     (snd (callTool example_env ''r1'' 10 12 (example_call ''list_events''))) =
   [GetCalDavClient, HandlerCall ''list_events'' []] \<and>
   filter (\<lambda>e. e = GetCalDavClient \<or> is_handler_call e)
     (snd (callTool example_env ''r2'' 10 12 (example_call ''list_contacts''))) =
   [GetCalDavClient, HandlerCall ''list_contacts'' []] \<and>
   filter (\<lambda>e. e = GetCalDavClient \<or> is_handler_call e)
     (snd (callTool example_env ''r3'' 10 12 (example_call ''list_calendars''))) =
   [HandlerCall ''list_calendars'' []]"
proof -
  have c: "filter (\<lambda>e. e = GetCalDavClient \<or> is_handler_call e)
             (snd (callTool example_env ''r1'' 10 12 (example_call ''list_events''))) =
           [GetCalDavClient, HandlerCall ''list_events'' []] \<and>
           filter (\<lambda>e. e = GetCalDavClient \<or> is_handler_call e)
             (snd (callTool example_env ''r2'' 10 12 (example_call ''list_contacts''))) =
           [GetCalDavClient, HandlerCall ''list_contacts'' []] \<and>
           filter (\<lambda>e. e = GetCalDavClient \<or> is_handler_call e)
             (snd (callTool example_env ''r3'' 10 12 (example_call ''list_calendars''))) =
           [HandlerCall ''list_calendars'' []]"
    using session_check_exemptions [OF example_resolves(2), of "''r1''" 10 12]
          session_check_exemptions [OF example_resolves(3), of "''r2''" 10 12]
          session_check_exemptions [OF example_resolves(1), of "''r3''" 10 12]
    by (simp add: example_call_def args_of_def)
  show ?thesis
    using example_resolves(1,2,3) c by blast
qed

section \<open>Properties of tools/list\<close>

text \<open>
  C9. A tools/list call returns the registry in full and in order: the same length, the
  same names, descriptions and schemas position by position, each entry cut down to
  these three fields (the handler and any further field of a registry entry are
  dropped). The catalogue does not depend on the request or on the session, so two
  calls return the same catalogue.
\<close>

theorem listTools_catalogue:
  "length (fst (listTools env rid)) = length (tools env) \<and>
   map name (fst (listTools env rid)) = map name (tools env) \<and>
   map description (fst (listTools env rid)) = map description (tools env) \<and>
   map inputSchema (fst (listTools env rid)) = map inputSchema (tools env) \<and>
   fst (listTools env rid) = map tool_entry.truncate (tools env) \<and>
   fst (listTools env rid') = fst (listTools env rid) \<and>
   fst (listTools (env\<lparr>tsdav_initialized := b\<rparr>) rid) = fst (listTools env rid)"
  by (simp add: listTools_def Let_def tool_entry.truncate_def comp_def)

section \<open>Properties of startup\<close>
















section \<open>Properties of shutdown\<close>






end
